theory Spec2Isabelle
  imports Main
begin

section \<open>Stores shared by the processes\<close>

text \<open>
  The repository has four programs: \<^verbatim>\<open>processor.py\<close> (queue to Cosmos DB and the SQL table
  \<^verbatim>\<open>workflow\<close>), \<^verbatim>\<open>status_logging_agent.py\<close> (the SQL tables \<^verbatim>\<open>workflow\<close> and
  \<^verbatim>\<open>workflow_step_status\<close>), \<^verbatim>\<open>commercial_loan_agent.py\<close> and \<^verbatim>\<open>orchestrator_agent.py\<close>.
  The stores are external services; they are modelled as explicit state: a table or a
  container is the list of its rows in insertion order. What an external call does
  (succeed, raise) is not decided by the code, so each call takes its outcome as an
  argument and every \<^verbatim>\<open>except\<close> branch of the source is a branch of the model.
\<close>

text \<open>A value returned by \<^verbatim>\<open>json.loads\<close>; a float is kept as its source text.\<close>

datatype json =
    JNull
  | JBool bool
  | JInt int
  | JFloat string
  | JStr string
  | JArr "json list"
  | JObj "(string \<times> json) list"

text \<open>The document that \<^verbatim>\<open>store_in_cosmosdb\<close> builds.\<close>

record document =
  doc_id :: string
  partitionKey :: string
  messageData :: json
  receivedTimestamp :: string

text \<open>A row of \<^verbatim>\<open>workflow(id, status, current_step, created_date)\<close>.\<close>

record workflow_row =
  wf_id :: string
  wf_status :: string
  current_step :: int
  created_date :: string

text \<open>
  A row of \<^verbatim>\<open>workflow_step_status(step, workflow_id, status_comment, update_date_time, status)\<close>.
\<close>

record step_row =
  step :: int
  workflow_id :: string
  status_comment :: string
  update_date_time :: string
  step_status :: string

record db =
  container :: "document list"
  workflow :: "workflow_row list"
  workflow_step_status :: "step_row list"

section \<open>processor.py: the ingestion process\<close>

text \<open>
  What the outside world answers while one message is handled. A message is given by the
  bytes of its body. \<^verbatim>\<open>str_of\<close> is the library's \<^verbatim>\<open>str(message)\<close>: it decodes the body or
  raises (\<^verbatim>\<open>UnicodeDecodeError\<close>). \<^verbatim>\<open>json_loads\<close> is the library's parser, taken as a
  parameter: it returns a value, raises \<^verbatim>\<open>JSONDecodeError\<close>, or raises something else
  (a \<^verbatim>\<open>RecursionError\<close> on deep nesting).
\<close>

datatype str_result = Str string | StrRaises string

datatype parse_result = Parsed json | JSONDecodeError | ParseRaises string

datatype cosmos_outcome = CreateOk | CosmosHttpResponseError string | CosmosOtherError string

datatype sql_outcome = SqlOk | PyodbcError string | SqlOtherError string

text \<open>
  \<^verbatim>\<open>await receiver.complete_message(message)\<close> succeeds, raises an \<^verbatim>\<open>Exception\<close>, or is
  cancelled at the \<^verbatim>\<open>await\<close>: \<^verbatim>\<open>asyncio.CancelledError\<close> is a \<^verbatim>\<open>BaseException\<close>, which
  \<^verbatim>\<open>except Exception\<close> does not catch.
\<close>

datatype complete_outcome = CompleteOk | CompleteRaises string | CompleteCancelled string

text \<open>
  Every \<^verbatim>\<open>print\<close> call of the three methods and of the receive loop, by the message it
  prints. A \<^verbatim>\<open>print\<close> writes to standard output or raises: \<^verbatim>\<open>UnicodeEncodeError\<close> when
  the text has a character that standard output cannot encode (\<^verbatim>\<open>print(parsed_msg)\<close> on the
  JSON text \<^verbatim>\<open>"\ud800"\<close>, whose value is a lone surrogate), \<^verbatim>\<open>OSError\<close> on a closed stream.
  The \<^verbatim>\<open>logger\<close> calls are left out: the handlers of the logging module catch what
  their \<^verbatim>\<open>emit\<close> raises, so a \<^verbatim>\<open>logger\<close> call always returns.
\<close>

datatype print_site =
    Received
  | ParsedData
  | Stored
  | NoId
  | NotJson
  | RawStored
  | CosmosError
  | CosmosUnexpected
  | RecordCreated
  | InsertError
  | InsertUnexpected
  | Completed
  | ProcessingError

datatype print_outcome = PrintOk | PrintRaises string

record env =
  str_of :: "string \<Rightarrow> str_result"
  json_loads :: "string \<Rightarrow> parse_result"
  stdout :: "print_site \<Rightarrow> print_outcome"
  uuid4 :: string
  create_item :: cosmos_outcome
  cosmos_time :: string
  sql_insert :: sql_outcome
  sql_time :: string
  complete_message :: complete_outcome

text \<open>
  Python's truth test on \<^verbatim>\<open>doc_id\<close>, which is \<^verbatim>\<open>None\<close> or a string: \<^verbatim>\<open>None\<close> and the
  empty string are false.
\<close>

fun truthy :: "string option \<Rightarrow> bool" where
  "truthy None = False"
| "truthy (Some s) = (s \<noteq> [])"

text \<open>
  A method ends by returning a value (\<open>Inr\<close>) or with an exception that leaves it
  (\<open>Inl\<close>, its text); the state after the call comes with either.

  The two \<^verbatim>\<open>except\<close> branches of \<^verbatim>\<open>insert_workflow_record\<close> and of \<^verbatim>\<open>store_in_cosmosdb\<close>:
  print the error, then return the failure value. An exception of the \<^verbatim>\<open>print\<close> is raised
  inside the handler, so it leaves the method.
\<close>

definition handler :: "env \<Rightarrow> print_site \<Rightarrow> 'a \<Rightarrow> db \<Rightarrow> (string + 'a) \<times> db" where
  "handler e site failure d =
     (case stdout e site of
        PrintOk \<Rightarrow> (Inr failure, d)
      | PrintRaises err \<Rightarrow> (Inl err, d))"

text \<open>
  \<^verbatim>\<open>insert_workflow_record(workflow_id)\<close>: one \<^verbatim>\<open>INSERT\<close> with status \<^verbatim>\<open>Initial\<close> and
  step 1, committed; then the message is printed and \<^verbatim>\<open>True\<close> returned. The \<^verbatim>\<open>print\<close>
  stands inside the \<^verbatim>\<open>try\<close>, after \<^verbatim>\<open>conn.commit()\<close>: when it raises, the row is already
  there and \<^verbatim>\<open>except Exception\<close> takes over. Both \<^verbatim>\<open>except\<close> branches return \<^verbatim>\<open>False\<close>; a
  database error leaves the table as it was.
\<close>

definition insert_workflow_record :: "env \<Rightarrow> string \<Rightarrow> db \<Rightarrow> (string + bool) \<times> db" where
  "insert_workflow_record e workflow_id' d =
     (case sql_insert e of
        SqlOk \<Rightarrow>
          (let d' = d\<lparr>workflow := workflow d @
                      [\<lparr>wf_id = workflow_id', wf_status = ''Initial'', current_step = 1,
                        created_date = sql_time e\<rparr>]\<rparr>
           in case stdout e RecordCreated of
                PrintOk \<Rightarrow> (Inr True, d')
              | PrintRaises _ \<Rightarrow> handler e InsertUnexpected False d')
      | PyodbcError _ \<Rightarrow> handler e InsertError False d
      | SqlOtherError _ \<Rightarrow> handler e InsertUnexpected False d)"

text \<open>
  \<^verbatim>\<open>store_in_cosmosdb(message_data)\<close>: a fresh \<^verbatim>\<open>uuid4\<close> is both the id and the partition
  key; the id is returned when \<^verbatim>\<open>create_item\<close> succeeds (the success message is commented
  out in the source), \<^verbatim>\<open>None\<close> from both \<^verbatim>\<open>except\<close> branches.
\<close>

definition store_in_cosmosdb :: "env \<Rightarrow> json \<Rightarrow> db \<Rightarrow> (string + string option) \<times> db" where
  "store_in_cosmosdb e message_data d =
     (let doc_id' = uuid4 e;
          document' = \<lparr>doc_id = doc_id', partitionKey = doc_id', messageData = message_data,
                       receivedTimestamp = cosmos_time e\<rparr>
      in case create_item e of
           CreateOk \<Rightarrow> (Inr (Some doc_id'), d\<lparr>container := container d @ [document']\<rparr>)
         | CosmosHttpResponseError _ \<Rightarrow> handler e CosmosError None d
         | CosmosOtherError _ \<Rightarrow> handler e CosmosUnexpected None d)"

text \<open>
  \<^verbatim>\<open>print(text)\<close> as a step of \<^verbatim>\<open>process_message\<close>, and running one step after another:
  the first exception ends the run, with the state reached.
\<close>

definition print_to :: "env \<Rightarrow> print_site \<Rightarrow> db \<Rightarrow> (string + unit) \<times> db" where
  "print_to e site d =
     (case stdout e site of
        PrintOk \<Rightarrow> (Inr (), d)
      | PrintRaises err \<Rightarrow> (Inl err, d))"

definition and_then ::
  "(string + 'a) \<times> db \<Rightarrow> ('a \<Rightarrow> db \<Rightarrow> (string + 'b) \<times> db) \<Rightarrow> (string + 'b) \<times> db" where
  "and_then r f =
     (case r of
        (Inl err, d) \<Rightarrow> (Inl err, d)
      | (Inr x, d) \<Rightarrow> f x d)"

text \<open>
  The body of the \<^verbatim>\<open>try\<close> of \<^verbatim>\<open>process_message\<close> after \<^verbatim>\<open>json.loads\<close> has returned: print
  the parsed data, store it, print the success message when \<^verbatim>\<open>doc_id\<close> is true, then
  insert the workflow record under \<^verbatim>\<open>doc_id\<close>, or print the warning. The value that
  \<^verbatim>\<open>insert_workflow_record\<close> returns is dropped, as in the source.
\<close>

definition json_branch :: "env \<Rightarrow> json \<Rightarrow> db \<Rightarrow> (string + unit) \<times> db" where
  "json_branch e message_data d =
     and_then (print_to e ParsedData d) (\<lambda>_ d.
     and_then (store_in_cosmosdb e message_data d) (\<lambda>doc_id' d.
     and_then (if truthy doc_id' then print_to e Stored d else (Inr (), d)) (\<lambda>_ d.
       let workflow_id' = doc_id'
       in if truthy workflow_id'
          then and_then (insert_workflow_record e (the workflow_id') d) (\<lambda>_ d. (Inr (), d))
          else print_to e NoId d)))"

text \<open>
  The \<^verbatim>\<open>except json.JSONDecodeError\<close> branch: print, store \<^verbatim>\<open>{"rawMessage": str(message)}\<close>,
  print the success message when \<^verbatim>\<open>doc_id\<close> is true. It calls nothing else.
\<close>

definition raw_branch :: "env \<Rightarrow> string \<Rightarrow> db \<Rightarrow> (string + unit) \<times> db" where
  "raw_branch e text d =
     and_then (print_to e NotJson d) (\<lambda>_ d.
       let raw_message_data = JObj [(''rawMessage'', JStr text)]
       in and_then (store_in_cosmosdb e raw_message_data d) (\<lambda>doc_id' d.
            if truthy doc_id' then print_to e RawStored d else (Inr (), d)))"

text \<open>
  \<^verbatim>\<open>process_message(message)\<close>: the received text is printed before the \<^verbatim>\<open>try\<close>; the
  \<^verbatim>\<open>try\<close> has the one handler \<^verbatim>\<open>except json.JSONDecodeError\<close>, which only the parser
  raises, so every other exception of the body, and every exception of the handler,
  leaves the method. The result is that exception, if any, and the state reached.
\<close>

definition process_message :: "env \<Rightarrow> string \<Rightarrow> db \<Rightarrow> string option \<times> db" where
  "process_message e message d =
     (case str_of e message of
        StrRaises err \<Rightarrow> (Some err, d)
      | Str text \<Rightarrow>
          (case and_then (print_to e Received d) (\<lambda>_ d.
                  case json_loads e text of
                    Parsed message_data \<Rightarrow> json_branch e message_data d
                  | JSONDecodeError \<Rightarrow> raw_branch e text d
                  | ParseRaises err \<Rightarrow> (Inl err, d)) of
             (Inl err, d') \<Rightarrow> (Some err, d')
           | (Inr _, d') \<Rightarrow> (None, d')))"

text \<open>
  The body of the \<^verbatim>\<open>async for\<close> loop of \<^verbatim>\<open>start_listening\<close>, for one received message:
  \<^verbatim>\<open>complete_message\<close> is reached when \<^verbatim>\<open>process_message\<close> returns, whatever it did. An
  \<^verbatim>\<open>Exception\<close> of \<^verbatim>\<open>process_message\<close>, of \<^verbatim>\<open>complete_message\<close> or of the \<^verbatim>\<open>print\<close> after it
  is caught by the loop, which prints the error; an exception of that \<^verbatim>\<open>print\<close>, and a
  cancellation, leave the loop. The result is the state reached, whether the message was
  completed (removed from the queue), and the exception that leaves the loop, if any.
\<close>

definition caught :: "env \<Rightarrow> db \<Rightarrow> bool \<Rightarrow> db \<times> bool \<times> string option" where
  "caught e d completed =
     (case stdout e ProcessingError of
        PrintOk \<Rightarrow> (d, completed, None)
      | PrintRaises err \<Rightarrow> (d, completed, Some err))"

definition receive_one :: "env \<Rightarrow> string \<Rightarrow> db \<Rightarrow> db \<times> bool \<times> string option" where
  "receive_one e message d =
     (case process_message e message d of
        (Some err, d') \<Rightarrow> caught e d' False
      | (None, d') \<Rightarrow>
          (case complete_message e of
             CompleteOk \<Rightarrow>
               (case stdout e Completed of
                  PrintOk \<Rightarrow> (d', True, None)
                | PrintRaises _ \<Rightarrow> caught e d' True)
           | CompleteRaises _ \<Rightarrow> caught e d' False
           | CompleteCancelled err \<Rightarrow> (d', False, Some err)))"


section \<open>status_logging_agent.py: the status capabilities\<close>

text \<open>
  Both capabilities open a connection, execute one statement and commit, inside one
  \<^verbatim>\<open>try\<close> whose \<^verbatim>\<open>except Exception\<close> logs the error. The outcome names the call that
  raised, with the exception's text; a statement that was not committed leaves no row.
  \<^verbatim>\<open>conn.close()\<close> in the \<^verbatim>\<open>finally\<close> block is taken not to raise.
\<close>

datatype db_outcome = WriteOk | ConnectRaises string | ExecuteRaises string | CommitRaises string

datatype log_record = LogInfo string | LogError string

text \<open>Python's \<^verbatim>\<open>str\<close> of an integer, for the f-strings.\<close>

fun str_nat :: "nat \<Rightarrow> string" where
  "str_nat n =
     (if n < 10 then [''0123456789'' ! n]
      else str_nat (n div 10) @ [''0123456789'' ! (n mod 10)])"

definition str_int :: "int \<Rightarrow> string" where
  "str_int i = (if i < 0 then CHR ''-'' # str_nat (nat (- i)) else str_nat (nat i))"

text \<open>
  \<^verbatim>\<open>log_step(step_status_comment, step, workflow_id, status)\<close>: the first two arguments
  of the model are the outcome of the database calls and \<^verbatim>\<open>datetime.now()\<close>. The result
  is the returned value, the records logged and the new state. The source's entry line
  ends after \<^verbatim>\<open>status: \<close> with no value.
\<close>

definition log_step ::
  "db_outcome \<Rightarrow> string \<Rightarrow> string \<Rightarrow> int \<Rightarrow> string \<Rightarrow> string \<Rightarrow> db \<Rightarrow> bool \<times> log_record list \<times> db" where
  "log_step outcome now step_status_comment step' workflow_id' status d =
     (let called = LogInfo (''log_step called with step_status_comment: '' @ step_status_comment
                     @ '', step: '' @ str_int step' @ '', workflow_id: '' @ workflow_id'
                     @ '', status: '');
          failed = (\<lambda>err. LogError (''Failed to log workflow status to the database: '' @ err))
      in case outcome of
           WriteOk \<Rightarrow>
             (True,
              [called, LogInfo ''Workflow status logged successfully to the database.''],
              d\<lparr>workflow_step_status := workflow_step_status d @
                 [\<lparr>step = step', workflow_id = workflow_id',
                   status_comment = step_status_comment, update_date_time = now,
                   step_status = status\<rparr>]\<rparr>)
         | ConnectRaises err \<Rightarrow> (True, [called, failed err], d)
         | ExecuteRaises err \<Rightarrow> (True, [called, failed err], d)
         | CommitRaises err \<Rightarrow> (True, [called, failed err], d))"

text \<open>
  \<^verbatim>\<open>update_workflow_status(current_step, workflow_id, status)\<close>:
  \<^verbatim>\<open>UPDATE workflow SET current_step = ?, status = ? WHERE id = ?\<close> rewrites every row
  with that id; the statement has no other condition.
\<close>

definition update_workflow_status ::
  "db_outcome \<Rightarrow> int \<Rightarrow> string \<Rightarrow> string \<Rightarrow> db \<Rightarrow> bool \<times> log_record list \<times> db" where
  "update_workflow_status outcome current_step' workflow_id' status d =
     (let called = LogInfo (''update_workflow called with current_step: '' @ str_int current_step'
                     @ '', workflow_id: '' @ workflow_id' @ '', status: '' @ status);
          failed = (\<lambda>err. LogError (''Failed to update workflow status in the database: '' @ err))
      in case outcome of
           WriteOk \<Rightarrow>
             (True,
              [called, LogInfo ''Workflow status updated successfully in the database.''],
              d\<lparr>workflow := map (\<lambda>r. if wf_id r = workflow_id'
                                      then r\<lparr>current_step := current_step', wf_status := status\<rparr>
                                      else r) (workflow d)\<rparr>)
         | ConnectRaises err \<Rightarrow> (True, [called, failed err], d)
         | ExecuteRaises err \<Rightarrow> (True, [called, failed err], d)
         | CommitRaises err \<Rightarrow> (True, [called, failed err], d))"

text \<open>The three components of a capability's result.\<close>

definition returned :: "bool \<times> log_record list \<times> db \<Rightarrow> bool" where
  "returned r = fst r"

definition logged :: "bool \<times> log_record list \<times> db \<Rightarrow> log_record list" where
  "logged r = fst (snd r)"

definition db_after :: "bool \<times> log_record list \<times> db \<Rightarrow> db" where
  "db_after r = snd (snd r)"

text \<open>The text of the exception that an outcome stands for, if it is one.\<close>

definition exception_of :: "db_outcome \<Rightarrow> string option" where
  "exception_of outcome =
     (case outcome of
        WriteOk \<Rightarrow> None
      | ConnectRaises err \<Rightarrow> Some err
      | ExecuteRaises err \<Rightarrow> Some err
      | CommitRaises err \<Rightarrow> Some err)"

text \<open>
  A run of \<^verbatim>\<open>update_workflow_status\<close> calls, in order, each with its outcome and its
  arguments \<open>(current_step, workflow_id, status)\<close>.
\<close>

fun apply_updates :: "(db_outcome \<times> int \<times> string \<times> string) list \<Rightarrow> db \<Rightarrow> db" where
  "apply_updates [] d = d"
| "apply_updates ((outcome, n, w, s) # calls) d =
     apply_updates calls (db_after (update_workflow_status outcome n w s d))"

text \<open>The calls of a run that reach the rows of workflow \<open>w\<close>: committed, and for that id.\<close>

definition effective ::
  "string \<Rightarrow> (db_outcome \<times> int \<times> string \<times> string) list \<Rightarrow> (db_outcome \<times> int \<times> string \<times> string) list" where
  "effective w calls = filter (\<lambda>(outcome, n, w', s). outcome = WriteOk \<and> w' = w) calls"

section \<open>commercial_loan_agent.py: the loan capabilities\<close>




text \<open>
  \<^verbatim>\<open>random.randint(a, b)\<close> returns an integer \<open>N\<close> with \<open>a \<le> N \<le> b\<close>; the generator's draw
  is the parameter \<open>r\<close>, and every value of the range is the result of some draw.
\<close>

definition randint :: "int \<Rightarrow> int \<Rightarrow> nat \<Rightarrow> int" where
  "randint a b r = a + int (r mod nat (b - a + 1))"

definition get_credit_score :: "nat \<Rightarrow> string \<Rightarrow> int" where
  "get_credit_score r application_data = randint 790 840 r"

section \<open>The command line of the two agent processes\<close>

text \<open>
  \<^verbatim>\<open>parse_arguments\<close> and \<^verbatim>\<open>run\<close> are the same text in \<^verbatim>\<open>commercial_loan_agent.py\<close> and
  \<^verbatim>\<open>status_logging_agent.py\<close>. The command line is read as what was given for each of the
  two options; \<^verbatim>\<open>type=int\<close> either converts the port's text or fails.
\<close>

datatype transport_arg = TransportAbsent | TransportGiven string

datatype port_arg = PortAbsent | PortInt int | PortNotInt string

record args =
  transport :: string
  port :: "int option"

text \<open>
  \<^verbatim>\<open>--transport\<close> has \<^verbatim>\<open>choices=["sse", "stdio"]\<close> and \<^verbatim>\<open>default="stdio"\<close>; \<^verbatim>\<open>--port\<close> has
  \<^verbatim>\<open>type=int\<close> and \<^verbatim>\<open>default=None\<close>. Neither option is declared \<^verbatim>\<open>required\<close> and no check
  relates them. \<open>Inl\<close> is the parser's usage error, which ends the process.
\<close>

definition parse_arguments :: "transport_arg \<Rightarrow> port_arg \<Rightarrow> string + args" where
  "parse_arguments t p =
     (case t of
        TransportGiven s \<Rightarrow>
          (if s \<noteq> ''sse'' \<and> s \<noteq> ''stdio'' then Inl ''argument --transport: invalid choice''
           else (case p of
                   PortNotInt _ \<Rightarrow> Inl ''argument --port: invalid int value''
                 | PortInt n \<Rightarrow> Inr \<lparr>transport = s, port = Some n\<rparr>
                 | PortAbsent \<Rightarrow> Inr \<lparr>transport = s, port = None\<rparr>))
      | TransportAbsent \<Rightarrow>
          (case p of
             PortNotInt _ \<Rightarrow> Inl ''argument --port: invalid int value''
           | PortInt n \<Rightarrow> Inr \<lparr>transport = ''stdio'', port = Some n\<rparr>
           | PortAbsent \<Rightarrow> Inr \<lparr>transport = ''stdio'', port = None\<rparr>))"

text \<open>
  What \<^verbatim>\<open>run(transport, port)\<close> serves before it returns: the \<^verbatim>\<open>if\<close> starts the SSE
  server, the \<^verbatim>\<open>elif\<close> the stdio server, and there is no \<^verbatim>\<open>else\<close>.
\<close>

datatype served = SseServer int | StdioServer | NoServer

definition run :: "string \<Rightarrow> int option \<Rightarrow> served" where
  "run transport' port' =
     (if transport' = ''sse'' \<and> port' \<noteq> None then SseServer (the port')
      else if transport' = ''stdio'' then StdioServer
      else NoServer)"

text \<open>The \<^verbatim>\<open>__main__\<close> block: parse, then run with the parsed values.\<close>

definition agent_main :: "transport_arg \<Rightarrow> port_arg \<Rightarrow> string + served" where
  "agent_main t p =
     (case parse_arguments t p of
        Inl err \<Rightarrow> Inl err
      | Inr a \<Rightarrow> Inr (run (transport a) (port a)))"

section \<open>Concrete inputs\<close>

text \<open>
  The message \<^verbatim>\<open>"\ud800"\<close> (eight characters) is JSON for a string of one lone surrogate,
  here in the three bytes of its generalised UTF-8 form.
\<close>

definition surrogate_message :: string where
  "surrogate_message = CHR 0x22 # CHR 0x5C # ''ud800'' @ [CHR 0x22]"

definition example_loads :: "string \<Rightarrow> parse_result" where
  "example_loads s =
     (if s = ''{}'' then Parsed (JObj [])
      else if s = ''[1]'' then Parsed (JArr [JInt 1])
      else if s = surrogate_message then Parsed (JStr [CHR 0xED, CHR 0xA0, CHR 0x80])
      else JSONDecodeError)"

definition env_ok :: env where
  "env_ok = \<lparr>str_of = Str,
             json_loads = example_loads,
             stdout = (\<lambda>site. PrintOk),
             uuid4 = ''0f8fad5b-d9cb-469f-a165-70867728950e'',
             create_item = CreateOk,
             cosmos_time = ''2025-01-01T00:00:00Z'',
             sql_insert = SqlOk,
             sql_time = ''2025-01-01 00:00:00'',
             complete_message = CompleteOk\<rparr>"

text \<open>Standard output in UTF-8 refuses the lone surrogate of the parsed value.\<close>

definition env_surrogate :: env where
  "env_surrogate =
     env_ok\<lparr>stdout := (\<lambda>site. if site = ParsedData then PrintRaises ''UnicodeEncodeError''
                              else PrintOk)\<rparr>"


definition env_sql_down :: env where
  "env_sql_down = env_ok\<lparr>sql_insert := PyodbcError ''08001''\<rparr>"

definition db0 :: db where
  "db0 = \<lparr>container = [], workflow = [], workflow_step_status = []\<rparr>"

definition row_completed :: workflow_row where
  "row_completed = \<lparr>wf_id = ''W1'', wf_status = ''Completed'', current_step = 3,
                    created_date = ''2025-01-01 00:00:00''\<rparr>"

definition db_completed :: db where
  "db_completed = db0\<lparr>workflow := [row_completed]\<rparr>"

definition row_initial :: workflow_row where
  "row_initial = \<lparr>wf_id = ''W2'', wf_status = ''Initial'', current_step = 1,
                  created_date = ''2025-01-02 00:00:00''\<rparr>"

definition db_initial :: db where
  "db_initial = db0\<lparr>workflow := [row_initial]\<rparr>"

definition calls_decreasing :: "(db_outcome \<times> int \<times> string \<times> string) list" where
  "calls_decreasing =
     [(WriteOk, 5, ''W1'', ''Completed''),
      (ConnectRaises ''08S01'', 7, ''W1'', ''Completed''),
      (WriteOk, 9, ''W2'', ''Completed''),
      (WriteOk, 2, ''W1'', ''Failed'')]"

section \<open>The ingestion process: what is proved\<close>

lemma and_then_Inr: "and_then (Inr x, d) f = f x d"
  by (simp add: and_then_def)

lemma and_then_Inl: "and_then (Inl err, d) f = (Inl err, d)"
  by (simp add: and_then_def)

lemma print_to_quiet: "stdout e site = PrintOk \<Longrightarrow> print_to e site d = (Inr (), d)"
  by (simp add: print_to_def)

lemma handler_quiet: "stdout e site = PrintOk \<Longrightarrow> handler e site failure d = (Inr failure, d)"
  by (simp add: handler_def)


lemma insert_workflow_record_quiet:
  assumes "\<forall>site. stdout e site = PrintOk"
  shows "insert_workflow_record e w d =
     (Inr (sql_insert e = SqlOk),
      d\<lparr>workflow := workflow d @
         (case sql_insert e of
            SqlOk \<Rightarrow> [\<lparr>wf_id = w, wf_status = ''Initial'', current_step = 1,
                        created_date = sql_time e\<rparr>]
          | PyodbcError _ \<Rightarrow> []
          | SqlOtherError _ \<Rightarrow> [])\<rparr>)"
  using assms by (simp add: insert_workflow_record_def handler_def Let_def split: sql_outcome.splits)





lemmas evaluate =
  process_message_def json_branch_def raw_branch_def store_in_cosmosdb_def
  insert_workflow_record_def handler_def print_to_def and_then_def receive_one_def caught_def
  Let_def

text \<open>
  The message \<^verbatim>\<open>"\ud800"\<close> parses, and printing the parsed value raises inside the
  \<^verbatim>\<open>try\<close> of \<^verbatim>\<open>process_message\<close>: nothing is stored and the message stays on the queue.
\<close>

lemma surrogate_message_left_on_queue:
  "receive_one env_surrogate surrogate_message db0 = (db0, False, None)"
  by (simp add: evaluate env_surrogate_def env_ok_def example_loads_def surrogate_message_def
      db0_def)




text \<open>
  C3 (a message that is not JSON is stored as a raw payload and gets exactly one
  WorkflowRecord): the code at the message \<^verbatim>\<open>hello\<close>, every service answering. The
  payload is stored wrapped under \<^verbatim>\<open>rawMessage\<close>, and the \<^verbatim>\<open>workflow\<close> table stays
  empty: the \<^verbatim>\<open>JSONDecodeError\<close> branch never calls \<^verbatim>\<open>insert_workflow_record\<close>, which the
  JSON branch does.
\<close>

theorem raw_message_no_workflow_record:
  "json_loads env_ok ''hello'' = JSONDecodeError \<and>
   process_message env_ok ''hello'' db0 =
     (None,
      \<lparr>container = [\<lparr>doc_id = ''0f8fad5b-d9cb-469f-a165-70867728950e'',
                     partitionKey = ''0f8fad5b-d9cb-469f-a165-70867728950e'',
                     messageData = JObj [(''rawMessage'', JStr ''hello'')],
                     receivedTimestamp = ''2025-01-01T00:00:00Z''\<rparr>],
       workflow = [], workflow_step_status = []\<rparr>)"
  by (simp add: evaluate env_ok_def example_loads_def surrogate_message_def db0_def)

text \<open>
  C6, as the spec states it (every message stored in the document store gets a
  WorkflowRecord), fails: a JSON message is stored, the SQL driver raises, and
  \<^verbatim>\<open>insert_workflow_record\<close> returns \<^verbatim>\<open>False\<close> with no row written; \<^verbatim>\<open>process_message\<close>
  drops that result.
\<close>

theorem stored_without_record:
  "process_message env_sql_down ''{}'' db0 =
     (None,
      \<lparr>container = [\<lparr>doc_id = ''0f8fad5b-d9cb-469f-a165-70867728950e'',
                     partitionKey = ''0f8fad5b-d9cb-469f-a165-70867728950e'',
                     messageData = JObj [],
                     receivedTimestamp = ''2025-01-01T00:00:00Z''\<rparr>],
       workflow = [], workflow_step_status = []\<rparr>)"
  by (simp add: evaluate env_sql_down_def env_ok_def example_loads_def db0_def)

text \<open>
  C6, amended: for every message that parses as JSON and is stored in the document store
  (under a generated identifier, which is never the empty string), with no \<^verbatim>\<open>print\<close> call
  raising: \<^verbatim>\<open>process_message\<close> returns normally having appended exactly one document,
  and \<^verbatim>\<open>insert_workflow_record\<close> is called with the document's identifier. When the
  insert into \<^verbatim>\<open>workflow\<close> succeeds it returns \<^verbatim>\<open>True\<close> and exactly one WorkflowRecord is
  appended, keyed by that identifier, with status \<^verbatim>\<open>Initial\<close> and \<^verbatim>\<open>current_step = 1\<close>;
  when the insert raises it returns \<^verbatim>\<open>False\<close> and no record is created.
\<close>

theorem process_message_creates_record:
  assumes "str_of e message = Str text" and "json_loads e text = Parsed v"
    and "\<forall>site. stdout e site = PrintOk"
    and "create_item e = CreateOk" and "uuid4 e \<noteq> []"
  shows "process_message e message d =
     (None,
      d\<lparr>container := container d @
           [\<lparr>doc_id = uuid4 e, partitionKey = uuid4 e, messageData = v,
             receivedTimestamp = cosmos_time e\<rparr>],
        workflow := workflow d @
           (case sql_insert e of
              SqlOk \<Rightarrow> [\<lparr>wf_id = uuid4 e, wf_status = ''Initial'', current_step = 1,
                          created_date = sql_time e\<rparr>]
            | PyodbcError _ \<Rightarrow> []
            | SqlOtherError _ \<Rightarrow> [])\<rparr>)
     \<and> fst (insert_workflow_record e (uuid4 e) d) = Inr (sql_insert e = SqlOk)"
  using assms
  by (simp add: process_message_def json_branch_def print_to_quiet and_then_Inr
      store_in_cosmosdb_def insert_workflow_record_quiet Let_def)

theorem process_message_creates_record_witness:
  "str_of env_ok ''{}'' = Str ''{}'' \<and> json_loads env_ok ''{}'' = Parsed (JObj []) \<and>
   (\<forall>site. stdout env_ok site = PrintOk) \<and> create_item env_ok = CreateOk \<and>
   uuid4 env_ok \<noteq> [] \<and> sql_insert env_ok = SqlOk \<and>
   process_message env_ok ''{}'' db0 =
     (None,
      \<lparr>container = [\<lparr>doc_id = ''0f8fad5b-d9cb-469f-a165-70867728950e'',
                     partitionKey = ''0f8fad5b-d9cb-469f-a165-70867728950e'',
                     messageData = JObj [],
                     receivedTimestamp = ''2025-01-01T00:00:00Z''\<rparr>],
       workflow = [\<lparr>wf_id = ''0f8fad5b-d9cb-469f-a165-70867728950e'',
                    wf_status = ''Initial'', current_step = 1,
                    created_date = ''2025-01-01 00:00:00''\<rparr>],
       workflow_step_status = []\<rparr>) \<and>
   fst (insert_workflow_record env_ok (uuid4 env_ok) db0) = Inr True \<and>
   fst (insert_workflow_record env_sql_down (uuid4 env_sql_down) db0) = Inr False"
proof -
  have h: "str_of env_ok ''{}'' = Str ''{}''" "json_loads env_ok ''{}'' = Parsed (JObj [])"
    "\<forall>site. stdout env_ok site = PrintOk" "create_item env_ok = CreateOk"
    "uuid4 env_ok \<noteq> []"
    by (simp_all add: env_ok_def example_loads_def)
  have h': "str_of env_sql_down ''{}'' = Str ''{}''"
    "json_loads env_sql_down ''{}'' = Parsed (JObj [])"
    "\<forall>site. stdout env_sql_down site = PrintOk" "create_item env_sql_down = CreateOk"
    "uuid4 env_sql_down \<noteq> []"
    by (simp_all add: env_sql_down_def env_ok_def example_loads_def)
  have ok: "sql_insert env_ok = SqlOk" by (simp add: env_ok_def)
  have down: "sql_insert env_sql_down = PyodbcError ''08001''"
    by (simp add: env_sql_down_def)
  show ?thesis
    using h ok process_message_creates_record [OF h, of db0]
      process_message_creates_record [OF h', of db0]
    by (simp add: down) (simp add: env_ok_def db0_def)
qed

section \<open>The status capabilities: what is proved\<close>

lemma update_length:
  "length (workflow (db_after (update_workflow_status outcome n w s d))) = length (workflow d)"
  by (simp add: update_workflow_status_def db_after_def Let_def split: db_outcome.splits)

lemma update_row:
  assumes "i < length (workflow d)"
  shows "workflow (db_after (update_workflow_status outcome n w s d)) ! i =
     (if outcome = WriteOk \<and> wf_id (workflow d ! i) = w
      then (workflow d ! i)\<lparr>current_step := n, wf_status := s\<rparr>
      else workflow d ! i)"
  using assms
  by (simp add: update_workflow_status_def db_after_def Let_def split: db_outcome.splits)

lemma update_wf_id:
  assumes "i < length (workflow d)"
  shows "wf_id (workflow (db_after (update_workflow_status outcome n w s d)) ! i) =
     wf_id (workflow d ! i)"
  using assms by (simp add: update_row)

lemma log_step_workflow: "workflow (db_after (log_step outcome now c n w s d)) = workflow d"
  by (simp add: log_step_def db_after_def Let_def split: db_outcome.splits)

lemma insert_keeps_rows:
  assumes "i < length (workflow d)"
  shows "workflow (snd (insert_workflow_record e w d)) ! i = workflow d ! i"
  using assms
  by (simp add: insert_workflow_record_def handler_def Let_def nth_append
      split: sql_outcome.splits print_outcome.splits)

text \<open>
  C4, as the spec states it (a record in status Completed or Failed is never changed
  again), fails: a committed \<^verbatim>\<open>update_workflow_status\<close> call for the id of a Completed
  record at step 3 leaves it Failed at step 1.
\<close>

theorem completed_record_changed:
  "workflow db_completed =
     [\<lparr>wf_id = ''W1'', wf_status = ''Completed'', current_step = 3,
       created_date = ''2025-01-01 00:00:00''\<rparr>] \<and>
   workflow (db_after (update_workflow_status WriteOk 1 ''W1'' ''Failed'' db_completed)) =
     [\<lparr>wf_id = ''W1'', wf_status = ''Failed'', current_step = 1,
       created_date = ''2025-01-01 00:00:00''\<rparr>]"
  by (simp add: update_workflow_status_def db_after_def Let_def db_completed_def
      row_completed_def db0_def)

text \<open>
  C4, amended: a record whose status is Completed or Failed is not protected. A
  committed \<^verbatim>\<open>update_workflow_status\<close> call for its id sets its \<^verbatim>\<open>current_step\<close> and
  status to the values supplied, whatever they are; a call for another id or one whose
  database write raises leaves the record as it was, and so do \<^verbatim>\<open>log_step\<close> and
  \<^verbatim>\<open>insert_workflow_record\<close>.
\<close>

theorem terminal_status_overwritten:
  assumes "i < length (workflow d)"
    and "wf_status (workflow d ! i) = ''Completed'' \<or> wf_status (workflow d ! i) = ''Failed''"
  shows "workflow (db_after (update_workflow_status outcome n w s d)) ! i =
           (if outcome = WriteOk \<and> wf_id (workflow d ! i) = w
            then (workflow d ! i)\<lparr>current_step := n, wf_status := s\<rparr>
            else workflow d ! i)
         \<and> workflow (db_after (log_step outcome now c n w s d)) ! i = workflow d ! i
         \<and> workflow (snd (insert_workflow_record e w d)) ! i = workflow d ! i"
  using update_row [OF assms(1)] insert_keeps_rows [OF assms(1)]
  by (simp add: log_step_workflow)

theorem terminal_status_overwritten_witness:
  "0 < length (workflow db_completed) \<and>
   wf_status (workflow db_completed ! 0) = ''Completed'' \<and>
   workflow (db_after (update_workflow_status WriteOk 1 ''W1'' ''Failed'' db_completed)) ! 0 =
     \<lparr>wf_id = ''W1'', wf_status = ''Failed'', current_step = 1,
      created_date = ''2025-01-01 00:00:00''\<rparr> \<and>
   workflow (db_after (update_workflow_status WriteOk 1 ''W2'' ''Failed'' db_completed)) ! 0 =
     row_completed \<and>
   workflow (db_after (update_workflow_status (CommitRaises ''08S01'') 1 ''W1'' ''Failed''
     db_completed)) ! 0 = row_completed"
proof -
  have h: "0 < length (workflow db_completed)"
    "wf_status (workflow db_completed ! 0) = ''Completed'' \<or>
     wf_status (workflow db_completed ! 0) = ''Failed''"
    by (simp_all add: db_completed_def row_completed_def db0_def)
  show ?thesis
    using terminal_status_overwritten [OF h, of WriteOk 1 "''W1''" "''Failed''" "''now''" "''c''" env_ok]
      terminal_status_overwritten [OF h, of WriteOk 1 "''W2''" "''Failed''" "''now''" "''c''" env_ok]
      terminal_status_overwritten [OF h, of "CommitRaises ''08S01''" 1 "''W1''" "''Failed''" "''now''" "''c''" env_ok]
    by (simp add: db_completed_def row_completed_def db0_def)
qed

lemma apply_updates_snoc:
  "apply_updates (calls @ [(outcome, n, w, s)]) d =
     db_after (update_workflow_status outcome n w s (apply_updates calls d))"
  by (induction calls arbitrary: d) auto

lemma apply_updates_length: "length (workflow (apply_updates calls d)) = length (workflow d)"
  by (induction calls arbitrary: d) (auto simp: update_length)

lemma apply_updates_wf_id:
  "i < length (workflow d) \<Longrightarrow>
     wf_id (workflow (apply_updates calls d) ! i) = wf_id (workflow d ! i)"
  by (induction calls arbitrary: d) (auto simp: update_length update_wf_id)

text \<open>
  C5, as the spec states it (\<^verbatim>\<open>current_step\<close> never decreases), fails: the record of
  workflow W1 is at step 3, and a committed update that supplies step 2 leaves it at
  step 2.
\<close>

theorem current_step_decreased:
  "current_step (workflow db_completed ! 0) = 3 \<and>
   current_step
     (workflow (db_after (update_workflow_status WriteOk 2 ''W1'' ''Failed'' db_completed)) ! 0) = 2"
  by (simp add: update_workflow_status_def db_after_def Let_def db_completed_def
      row_completed_def db0_def)

text \<open>
  C5, amended: \<^verbatim>\<open>update_workflow_status\<close> stores the step it is given without comparing
  it with the stored one. After any sequence of calls the \<^verbatim>\<open>current_step\<close> of a record is
  the value supplied by the last committed call for its id, and the stored value when
  there was none; so it is non-decreasing only as far as the callers supply
  non-decreasing values.
\<close>

theorem current_step_last_update:
  assumes "i < length (workflow d)"
  shows "current_step (workflow (apply_updates calls d) ! i) =
     (if effective (wf_id (workflow d ! i)) calls = [] then current_step (workflow d ! i)
      else fst (snd (last (effective (wf_id (workflow d ! i)) calls))))"
proof (induction calls rule: rev_induct)
  case Nil
  show ?case by (simp add: effective_def)
next
  case (snoc x calls)
  obtain outcome n w s where x: "x = (outcome, n, w, s)" by (cases x)
  let ?d = "apply_updates calls d"
  have len: "i < length (workflow ?d)" using assms by (simp add: apply_updates_length)
  have wid: "wf_id (workflow ?d ! i) = wf_id (workflow d ! i)"
    using assms by (rule apply_updates_wf_id)
  show ?case
  proof (cases "outcome = WriteOk \<and> w = wf_id (workflow d ! i)")
    case True
    then have "effective (wf_id (workflow d ! i)) (calls @ [x]) =
        effective (wf_id (workflow d ! i)) calls @ [x]"
      by (simp add: effective_def x)
    moreover have "current_step (workflow (apply_updates (calls @ [x]) d) ! i) = n"
      using True len wid by (simp add: x apply_updates_snoc update_row)
    ultimately show ?thesis by (simp add: x)
  next
    case False
    then have "effective (wf_id (workflow d ! i)) (calls @ [x]) =
        effective (wf_id (workflow d ! i)) calls"
      by (auto simp: effective_def x)
    moreover have "current_step (workflow (apply_updates (calls @ [x]) d) ! i) =
        current_step (workflow ?d ! i)"
      using False len wid by (auto simp: x apply_updates_snoc update_row)
    ultimately show ?thesis using snoc.IH by simp
  qed
qed

theorem current_step_last_update_witness:
  "0 < length (workflow db_completed) \<and>
   current_step (workflow db_completed ! 0) = 3 \<and>
   current_step (workflow (apply_updates calls_decreasing db_completed) ! 0) = 2"
proof -
  have h: "0 < length (workflow db_completed)"
    by (simp add: db_completed_def db0_def)
  show ?thesis
    using h current_step_last_update [OF h, of calls_decreasing]
    by (simp add: db_completed_def row_completed_def db0_def calls_decreasing_def effective_def)
qed

text \<open>
  C9: \<^verbatim>\<open>log_step\<close> and \<^verbatim>\<open>update_workflow_status\<close> return \<^verbatim>\<open>True\<close> on every invocation,
  also when the database write raises: the exception is logged as an error and not
  propagated, nothing is written, and the returned value is the same as after a
  committed write.
\<close>

theorem status_capabilities_return_True:
  "returned (log_step outcome now c n w s d) = True \<and>
   returned (update_workflow_status outcome n w s d) = True \<and>
   logged (log_step outcome now c n w s d) =
     [LogInfo (''log_step called with step_status_comment: '' @ c @ '', step: '' @ str_int n
               @ '', workflow_id: '' @ w @ '', status: ''),
      case exception_of outcome of
        None \<Rightarrow> LogInfo ''Workflow status logged successfully to the database.''
      | Some err \<Rightarrow> LogError (''Failed to log workflow status to the database: '' @ err)] \<and>
   logged (update_workflow_status outcome n w s d) =
     [LogInfo (''update_workflow called with current_step: '' @ str_int n
               @ '', workflow_id: '' @ w @ '', status: '' @ s),
      case exception_of outcome of
        None \<Rightarrow> LogInfo ''Workflow status updated successfully in the database.''
      | Some err \<Rightarrow> LogError (''Failed to update workflow status in the database: '' @ err)] \<and>
   (case exception_of outcome of
      None \<Rightarrow> True
    | Some err \<Rightarrow> db_after (log_step outcome now c n w s d) = d \<and>
                 db_after (update_workflow_status outcome n w s d) = d)"
  by (cases outcome)
    (simp_all add: log_step_def update_workflow_status_def returned_def logged_def db_after_def
      exception_of_def Let_def)

section \<open>The loan capabilities and the command line: what is proved\<close>

lemma randint_range:
  assumes "a \<le> b"
  shows "a \<le> randint a b r \<and> randint a b r \<le> b"
proof -
  have "0 < nat (b - a + 1)" using assms by simp
  then have "r mod nat (b - a + 1) < nat (b - a + 1)" by (rule mod_less_divisor)
  then have "int (r mod nat (b - a + 1)) < b - a + 1" using assms by linarith
  then show ?thesis by (simp add: randint_def)
qed

lemma randint_onto: "a \<le> n \<Longrightarrow> n \<le> b \<Longrightarrow> randint a b (nat (n - a)) = n"
  by (simp add: randint_def)

text \<open>
  C7: for every input (and every draw of the generator) \<^verbatim>\<open>get_credit_score\<close> returns an
  integer between 300 and 850; it lies in fact between 790 and 840, the bounds given to
  \<^verbatim>\<open>random.randint\<close>.
\<close>

theorem get_credit_score_range:
  "300 \<le> get_credit_score r application_data \<and> get_credit_score r application_data \<le> 850 \<and>
   790 \<le> get_credit_score r application_data \<and> get_credit_score r application_data \<le> 840"
  using randint_range [of 790 840 r] by (simp add: get_credit_score_def)



text \<open>
  C8 (with \<^verbatim>\<open>--transport sse\<close> the port is required and its absence is rejected): the
  code at \<^verbatim>\<open>--transport sse\<close> with no \<^verbatim>\<open>--port\<close>. The parser accepts the command line
  with \<^verbatim>\<open>port = None\<close>, and \<^verbatim>\<open>run\<close> returns normally having started no server: nothing
  is rejected. With a port the SSE server starts, and the default transport needs none.
\<close>

theorem sse_without_port_accepted:
  "parse_arguments (TransportGiven ''sse'') PortAbsent = Inr \<lparr>transport = ''sse'', port = None\<rparr> \<and>
   agent_main (TransportGiven ''sse'') PortAbsent = Inr NoServer \<and>
   agent_main (TransportGiven ''sse'') (PortInt 8080) = Inr (SseServer 8080) \<and>
   agent_main TransportAbsent PortAbsent = Inr StdioServer"
  by (simp add: agent_main_def parse_arguments_def run_def)

end
